theory Spec2Isabelle
  imports Main
begin

section \<open>Strings and exceptions\<close>

text \<open>
  A Python \<open>str\<close> is modelled as a \<open>string\<close> whose characters are the code points
  below 256. An exception is represented by the text \<open>str(e)\<close> that the handlers of the
  program store; a computation that may raise returns \<open>exn + 'a\<close>, with \<open>Inl\<close> the raise.
\<close>

type_synonym exn = string

text \<open>\<open>str.isspace\<close> on the code points below 256.\<close>

definition py_isspace :: "char \<Rightarrow> bool" where
  "py_isspace c = (let n = (of_char c :: nat) in
     (9 \<le> n \<and> n \<le> 13) \<or> (28 \<le> n \<and> n \<le> 32) \<or> n = 133 \<or> n = 160)"

text \<open>\<open>str.strip()\<close>: leading and trailing whitespace removed.\<close>

definition py_strip :: "string \<Rightarrow> string" where
  "py_strip s = rev (dropWhile py_isspace (rev (dropWhile py_isspace s)))"

text \<open>\<open>str.lower()\<close> on the code points below 256: the ASCII capitals and the Latin-1
  capitals (all of 192..222 but the multiplication sign 215) move up by 32.\<close>

definition py_lower_char :: "char \<Rightarrow> char" where
  "py_lower_char c = (let n = (of_char c :: nat) in
     if (65 \<le> n \<and> n \<le> 90) \<or> (192 \<le> n \<and> n \<le> 222 \<and> n \<noteq> 215)
     then char_of (n + 32) else c)"

definition py_lower :: "string \<Rightarrow> string" where
  "py_lower s = map py_lower_char s"

text \<open>\<open>"\n".join(parts)\<close>.\<close>

fun join_lines :: "string list \<Rightarrow> string" where
  "join_lines [] = []"
| "join_lines [p] = p"
| "join_lines (p # q # ps) = p @ CHR 0x0A # join_lines (q # ps)"

section \<open>Messages\<close>

text \<open>
  The content of a message is a \<open>str\<close> or a list of content blocks, each block a \<open>str\<close>
  or a \<open>dict\<close> (here with string values, kept as an association list). A message is one of
  the message classes the program tests with \<open>isinstance\<close>; an \<open>AIMessage\<close> carries the
  names of its tool calls. Human messages are only ever built from a \<open>str\<close>.
\<close>

datatype block = DictBlock "(string \<times> string) list" | StrBlock string

datatype content = Text string | Blocks "block list"

datatype message =
    HumanMessage string
  | AIMessage content "string list"
  | ToolMessage content
  | SystemMessage string

text \<open>Python truthiness of a content value: a non-empty string or a non-empty list.\<close>

fun truthy :: "content \<Rightarrow> bool" where
  "truthy (Text s) = (s \<noteq> [])"
| "truthy (Blocks bs) = (bs \<noteq> [])"

section \<open>The intent classifier (\<open>app/utils/intent_detector.py\<close>)\<close>

text \<open>\<open>INTENT_DETECTOR_PROMPT.format(message=message)\<close>.\<close>

definition INTENT_DETECTOR_PROMPT :: "string \<Rightarrow> string" where
  "INTENT_DETECTOR_PROMPT message =
     ''Analyze the user's message and determine their requirement.'' @ [CHR 0x0A, CHR 0x0A] @
     ''User message: '' @ [CHR 0x22] @ message @ [CHR 0x22, CHR 0x0A, CHR 0x0A] @
     ''Classify as one of:'' @ [CHR 0x0A] @
     ''- explain: explain, teach, help me understand, what is '' @ [CHR 0x0A] @
     ''- learn: create a document, summarise, revision, material '' @ [CHR 0x0A, CHR 0x0A] @
     ''Output ONLY one word: explain, or learn''"

text \<open>
  \<open>get_llm\<close> reads the credential from the environment and raises \<open>ValueError\<close> when it
  is unset or empty. The environment is the parameter \<open>api_key\<close>.
\<close>

definition get_llm :: "string option \<Rightarrow> exn + unit" where
  "get_llm api_key =
     (case api_key of
        None \<Rightarrow> Inl ''Please set GOOGLE_API_KEY in your .env file''
      | Some k \<Rightarrow> if k = [] then Inl ''Please set GOOGLE_API_KEY in your .env file'' else Inr ())"

text \<open>
  \<open>detect_intent\<close>. The completion capability is the parameter \<open>llm\<close>: it maps the prompt
  to the content of the reply, or raises. The second component of the result is the log
  of the prompts sent to it, in order, so that the number of completion calls is visible.
  \<open>response.content.strip()\<close> on a list content raises \<open>AttributeError\<close>, which the
  \<open>except Exception\<close> turns into \<open>unknown\<close> like every other exception.
\<close>

definition detect_intent ::
  "string option \<Rightarrow> (string \<Rightarrow> exn + content) \<Rightarrow> string \<Rightarrow> string \<times> string list" where
  "detect_intent api_key llm message =
     (case get_llm api_key of
        Inl e \<Rightarrow> (''unknown'', [])
      | Inr u \<Rightarrow>
          (let prompt = INTENT_DETECTOR_PROMPT message in
           case llm prompt of
             Inl e \<Rightarrow> (''unknown'', [prompt])
           | Inr (Blocks bs) \<Rightarrow> (''unknown'', [prompt])
           | Inr (Text reply) \<Rightarrow>
               (let intent = py_lower (py_strip reply) in
                if intent \<in> set [''explain'', ''learn''] then (intent, [prompt])
                else (''unknown'', [prompt]))))"

section \<open>Conversation state (\<open>app/agents/state.py\<close>)\<close>

text \<open>\<open>ExamHelperState\<close>, with every key of the \<open>TypedDict\<close> present.\<close>

record state =
  messages :: "message list"
  user_query :: string
  user_intent :: string
  session_summary :: string
  turn_count :: int
  current_response :: "string option"
  error :: "string list"
  orchestrator_result :: "content option"

definition get_initial_state :: state where
  "get_initial_state =
     \<lparr> messages = [], user_query = [], user_intent = ''unknown'', session_summary = [],
       turn_count = 0, current_response = None, error = [], orchestrator_result = None \<rparr>"

section \<open>The orchestrator node (\<open>app/nodes/orchestrator_node.py\<close>)\<close>

text \<open>
  \<open>_extract_text\<close>. The loop over the blocks of a list content is \<open>extract_parts\<close>:
  \<open>block["text"]\<close> on a \<open>dict\<close> of type \<open>text\<close> without that key raises \<open>KeyError\<close>.
  The last branch of the source, \<open>str(content)\<close>, is for a content that is neither a
  \<open>str\<close> nor a list, which the content type excludes.
\<close>

fun extract_parts :: "block list \<Rightarrow> exn + string list" where
  "extract_parts [] = Inr []"
| "extract_parts (DictBlock d # bs) =
     (if map_of d ''type'' = Some ''text'' then
        (case map_of d ''text'' of
           None \<Rightarrow> Inl (CHR 0x27 # ''text'' @ [CHR 0x27])
         | Some t \<Rightarrow> (case extract_parts bs of Inl e \<Rightarrow> Inl e | Inr ps \<Rightarrow> Inr (t # ps)))
      else extract_parts bs)"
| "extract_parts (StrBlock s # bs) =
     (case extract_parts bs of Inl e \<Rightarrow> Inl e | Inr ps \<Rightarrow> Inr (s # ps))"

fun extract_text :: "content \<Rightarrow> exn + string" where
  "extract_text (Text s) = Inr s"
| "extract_text (Blocks bs) =
     (case extract_parts bs of Inl e \<Rightarrow> Inl e | Inr ps \<Rightarrow> Inr (join_lines ps))"

text \<open>
  The first loop of \<open>process\<close>, over \<open>reversed(messages)\<close>: the content of the first
  \<open>HumanMessage\<close> met, the empty string when there is none. The argument is the
  reversed list.
\<close>

fun find_user_msg :: "message list \<Rightarrow> string" where
  "find_user_msg [] = []"
| "find_user_msg (HumanMessage c # ms) = c"
| "find_user_msg (m # ms) = find_user_msg ms"

text \<open>
  The second loop of \<open>process\<close>, over \<open>reversed(result["messages"])\<close>, with the
  variable \<open>ai_message\<close> as accumulator. It returns the pair
  \<open>(orchestrator_response, ai_message)\<close> at the end of the loop: a tool message with
  content sets the response and breaks; an assistant message with content and no tool
  calls overwrites \<open>ai_message\<close> and the loop goes on.
\<close>

fun scan_result :: "message list \<Rightarrow> string \<Rightarrow> exn + (content \<times> string)" where
  "scan_result [] ai_message = Inr (Text [], ai_message)"
| "scan_result (ToolMessage c # ms) ai_message =
     (if truthy c then Inr (c, ai_message) else scan_result ms ai_message)"
| "scan_result (AIMessage c tool_calls # ms) ai_message =
     (if truthy c \<and> tool_calls = [] then
        (case extract_text c of Inl e \<Rightarrow> Inl e | Inr t \<Rightarrow> scan_result ms t)
      else scan_result ms ai_message)"
| "scan_result (m # ms) ai_message = scan_result ms ai_message"

text \<open>
  What the node talks to: the environment variable read by the classifier, the
  completion capability of the classifier, \<open>get_agent_tools\<close> (only whether it raises
  matters here: the tools go to the loop), \<open>get_prompt\<close> of the injected agent, and the
  tool-calling loop built by \<open>create_react_agent\<close>, which maps the prompt and the
  messages to the messages of its result. Each may raise.
\<close>

record env =
  api_key :: "string option"
  llm_invoke :: "string \<Rightarrow> exn + content"
  get_agent_tools :: "exn + unit"
  get_prompt :: "state \<Rightarrow> exn + string"
  agent_invoke :: "string \<Rightarrow> message list \<Rightarrow> exn + message list"

text \<open>
  The dictionary returned by \<open>process\<close>: a key that is absent is \<open>None\<close>; the key
  \<open>orchestrator_result\<close> can be present with the value \<open>None\<close>.
\<close>

record node_update =
  upd_messages :: "message list option"
  upd_user_intent :: "string option"
  upd_orchestrator_result :: "content option option"
  upd_error :: "string list option"

text \<open>The \<open>except Exception\<close> branch of \<open>process\<close>.\<close>

definition node_failed :: "exn \<Rightarrow> node_update" where
  "node_failed e =
     \<lparr> upd_messages = None, upd_user_intent = None, upd_orchestrator_result = Some None,
       upd_error = Some [''Orchestrator node failed: '' @ e] \<rparr>"

text \<open>
  \<open>OrchestratorNode.process\<close>. The result is the returned dictionary and the log of the
  prompts sent to the classifier.
\<close>

definition process :: "env \<Rightarrow> state \<Rightarrow> node_update \<times> string list" where
  "process ev st =
     (let user_msg = find_user_msg (rev (messages st));
          (current_intent, calls) =
             (if user_intent st = ''unknown'' \<and> user_msg \<noteq> []
              then detect_intent (api_key ev) (llm_invoke ev) user_msg
              else (user_intent st, []))
      in case get_agent_tools ev of
           Inl e \<Rightarrow> (node_failed e, calls)
         | Inr tools \<Rightarrow>
             (case get_prompt ev st of
                Inl e \<Rightarrow> (node_failed e, calls)
              | Inr prompt \<Rightarrow>
                  (case agent_invoke ev prompt (messages st) of
                     Inl e \<Rightarrow> (node_failed e, calls)
                   | Inr result \<Rightarrow>
                       (case scan_result (rev result) [] of
                          Inl e \<Rightarrow> (node_failed e, calls)
                        | Inr (orchestrator_response, ai_message) \<Rightarrow>
                            (\<lparr> upd_messages = Some result,
                               upd_user_intent = Some current_intent,
                               upd_orchestrator_result =
                                 Some (Some (if orchestrator_response = Text []
                                             then Text ai_message
                                             else orchestrator_response)),
                               upd_error = None \<rparr>, calls)))))"

text \<open>\<open>OrchestratorAgent.get_prompt\<close>, the agent the factory injects into the node.\<close>

definition ORCHESTRATOR_PROMPT :: "string \<Rightarrow> string" where
  "ORCHESTRATOR_PROMPT intent =
     [CHR 0x0A] @ ''Todo'' @ [CHR 0x0A, CHR 0x0A] @ ''CURRENT STATE:'' @ [CHR 0x0A] @
     ''- Intent: '' @ intent @ [CHR 0x0A]"

definition orchestrator_get_prompt :: "state option \<Rightarrow> string" where
  "orchestrator_get_prompt st =
     ORCHESTRATOR_PROMPT (case st of None \<Rightarrow> ''unknown'' | Some s \<Rightarrow> user_intent s)"

section \<open>The conversation store (\<open>app/utils/conversation_store.py\<close>)\<close>

text \<open>
  The Python values that \<open>save_conversation\<close> is given (\<open>List[Dict[str, Any]]\<close> and
  \<open>Optional[Dict[str, Any]]\<close>): \<open>None\<close>, a \<open>bool\<close>, an \<open>int\<close>, a \<open>str\<close>, a list,
  a tuple, a \<open>dict\<close> with \<open>str\<close> keys (its items in order), or an object of a class
  that \<open>json\<close> does not know, kept as the text \<open>str(obj)\<close>.
\<close>

datatype pyval =
    PNone
  | PBool bool
  | PInt int
  | PStr string
  | PList "pyval list"
  | PTuple "pyval list"
  | PDict "(string \<times> pyval) list"
  | PObject string

text \<open>
  JSON values, the content of a file that parses; an object keeps its members as an
  association list.
\<close>

datatype json =
    JNull
  | JBool bool
  | JNum int
  | JStr string
  | JArr "json list"
  | JObj "(string \<times> json) list"

text \<open>
  \<open>json_of\<close> is what \<open>json.dump(value, f, indent=2, default=str)\<close> writes: a tuple is
  written as an array, like a list, and an object of an unknown class as the string
  \<open>str(obj)\<close>. \<open>py_of\<close> is the Python value that \<open>json.load\<close> returns for a JSON
  value. A Python value is \<open>json_native\<close> when writing and reading give it back.
\<close>

primrec json_of :: "pyval \<Rightarrow> json" where
  "json_of PNone = JNull"
| "json_of (PBool b) = JBool b"
| "json_of (PInt n) = JNum n"
| "json_of (PStr s) = JStr s"
| "json_of (PList xs) = JArr (map json_of xs)"
| "json_of (PTuple xs) = JArr (map json_of xs)"
| "json_of (PDict kvs) = JObj (map (map_prod id json_of) kvs)"
| "json_of (PObject s) = JStr s"

primrec py_of :: "json \<Rightarrow> pyval" where
  "py_of JNull = PNone"
| "py_of (JBool b) = PBool b"
| "py_of (JNum n) = PInt n"
| "py_of (JStr s) = PStr s"
| "py_of (JArr xs) = PList (map py_of xs)"
| "py_of (JObj kvs) = PDict (map (map_prod id py_of) kvs)"


text \<open>
  A record file, by what \<open>open(path, "r")\<close> followed by \<open>json.load\<close> does on it:
  it parses to a value, or raises \<open>json.JSONDecodeError\<close> (text that is not JSON),
  \<open>UnicodeDecodeError\<close> (bytes that are not text in the encoding of the file object;
  a \<open>ValueError\<close>), or \<open>IOError\<close> (the file cannot be opened or read).

  The storage directory: the file at each path, if there is one; the paths whose name
  the file system refuses (a name that is too long, for instance), on which
  \<open>Path.exists()\<close> raises \<open>OSError\<close>; and the paths that cannot be opened for writing
  or removed, on which \<open>open(path, "w")\<close> and \<open>Path.unlink()\<close> raise \<open>OSError\<close>.
\<close>

datatype stored_file = Parsed json | Malformed | Undecodable | Unreadable

record fs =
  contents :: "string \<Rightarrow> stored_file option"
  refused :: "string \<Rightarrow> bool"
  locked :: "string \<Rightarrow> bool"

text \<open>The name of the Python type of a value, for the text of an \<open>AttributeError\<close>.\<close>

fun py_type_name :: "json \<Rightarrow> string" where
  "py_type_name JNull = ''NoneType''"
| "py_type_name (JBool b) = ''bool''"
| "py_type_name (JNum n) = ''int''"
| "py_type_name (JStr s) = ''str''"
| "py_type_name (JArr xs) = ''list''"
| "py_type_name (JObj kvs) = ''dict''"

text \<open>\<open>data.get(key, default)\<close>: only a \<open>dict\<close> has the method.\<close>

fun json_get :: "json \<Rightarrow> string \<Rightarrow> json \<Rightarrow> exn + json" where
  "json_get (JObj kvs) k d = Inr (case map_of kvs k of None \<Rightarrow> d | Some v \<Rightarrow> v)"
| "json_get j k d =
     Inl ([CHR 0x27] @ py_type_name j @ [CHR 0x27] @ '' object has no attribute '' @
          [CHR 0x27] @ ''get'' @ [CHR 0x27])"

text \<open>Python truthiness of a loaded value (\<open>if data:\<close>).\<close>

fun json_truthy :: "json \<Rightarrow> bool" where
  "json_truthy JNull = False"
| "json_truthy (JBool b) = b"
| "json_truthy (JNum n) = (n \<noteq> 0)"
| "json_truthy (JStr s) = (s \<noteq> [])"
| "json_truthy (JArr xs) = (xs \<noteq> [])"
| "json_truthy (JObj kvs) = (kvs \<noteq> [])"

text \<open>
  \<open>_get_conversation_path\<close>: the two \<open>str.replace\<close> calls, one after the other, then
  the file name under the storage directory.
\<close>

definition replace_char :: "char \<Rightarrow> char \<Rightarrow> string \<Rightarrow> string" where
  "replace_char old new s = map (\<lambda>c. if c = old then new else c) s"

definition safe_id :: "string \<Rightarrow> string" where
  "safe_id conversation_id =
     replace_char (CHR 0x5C) CHR ''_'' (replace_char CHR ''/'' CHR ''_'' conversation_id)"

definition get_conversation_path :: "string \<Rightarrow> string \<Rightarrow> string" where
  "get_conversation_path storage_dir conversation_id =
     storage_dir @ ''/'' @ safe_id conversation_id @ ''.json''"

text \<open>
  \<open>save_conversation\<close>. \<open>now\<close> is the value of \<open>datetime.now().isoformat()\<close>.
  \<open>file_path.exists()\<close> stands outside the \<open>try\<close>. Reading the existing file is
  guarded by \<open>except (json.JSONDecodeError, KeyError)\<close> only: the other exceptions of
  the read, and the \<open>AttributeError\<close> of \<open>existing.get\<close> on a value that is not an
  object, leave the function. The dictionary \<open>data\<close> is then written with \<open>json.dump\<close>
  to the file opened for writing, outside any \<open>try\<close>.
\<close>

definition save_conversation ::
  "string \<Rightarrow> string \<Rightarrow> fs \<Rightarrow> string \<Rightarrow> pyval list \<Rightarrow> (string \<times> pyval) list option
     \<Rightarrow> exn + fs" where
  "save_conversation storage_dir now files conversation_id msgs metadata =
     (let file_path = get_conversation_path storage_dir conversation_id;
          data = [(''conversation_id'', PStr conversation_id),
                  (''updated_at'', PStr now),
                  (''messages'', PList msgs),
                  (''metadata'', PDict (case metadata of None \<Rightarrow> [] | Some m \<Rightarrow> m))]
      in if refused files file_path then Inl ''OSError''
         else
           (case (case contents files file_path of
                    None \<Rightarrow> Inr (JStr now)
                  | Some (Parsed existing) \<Rightarrow> json_get existing ''created_at'' (JStr now)
                  | Some Malformed \<Rightarrow> Inr (JStr now)
                  | Some Undecodable \<Rightarrow> Inl ''UnicodeDecodeError''
                  | Some Unreadable \<Rightarrow> Inl ''IOError'') of
              Inl e \<Rightarrow> Inl e
            | Inr created_at \<Rightarrow>
                if locked files file_path then Inl ''OSError''
                else Inr (files \<lparr> contents := (contents files)
                            (file_path \<mapsto>
                               Parsed (json_of (PDict (data @
                                  [(''created_at'', py_of created_at)])))) \<rparr>)))"

text \<open>
  \<open>load_conversation\<close>: \<open>None\<close> is Python's \<open>None\<close>, which is also what a file
  holding \<open>null\<close> loads to. \<open>file_path.exists()\<close> stands outside the \<open>try\<close>; the
  guard of the read is \<open>except (json.JSONDecodeError, IOError)\<close>.
\<close>

definition load_conversation :: "string \<Rightarrow> fs \<Rightarrow> string \<Rightarrow> exn + json option" where
  "load_conversation storage_dir files conversation_id =
     (let file_path = get_conversation_path storage_dir conversation_id
      in if refused files file_path then Inl ''OSError''
         else
           (case contents files file_path of
              None \<Rightarrow> Inr None
            | Some (Parsed data) \<Rightarrow> Inr (if data = JNull then None else Some data)
            | Some Malformed \<Rightarrow> Inr None
            | Some Unreadable \<Rightarrow> Inr None
            | Some Undecodable \<Rightarrow> Inl ''UnicodeDecodeError''))"

text \<open>\<open>get_messages\<close>.\<close>

definition get_messages :: "string \<Rightarrow> fs \<Rightarrow> string \<Rightarrow> exn + json" where
  "get_messages storage_dir files conversation_id =
     (case load_conversation storage_dir files conversation_id of
        Inl e \<Rightarrow> Inl e
      | Inr None \<Rightarrow> Inr (JArr [])
      | Inr (Some data) \<Rightarrow>
          if json_truthy data then json_get data ''messages'' (JArr []) else Inr (JArr []))"

text \<open>
  \<open>delete_conversation\<close>: the answer and the directory afterwards; neither
  \<open>exists()\<close> nor \<open>unlink()\<close> is guarded.
\<close>

definition delete_conversation :: "string \<Rightarrow> fs \<Rightarrow> string \<Rightarrow> exn + (bool \<times> fs)" where
  "delete_conversation storage_dir files conversation_id =
     (let file_path = get_conversation_path storage_dir conversation_id
      in if refused files file_path then Inl ''OSError''
         else
           (case contents files file_path of
              None \<Rightarrow> Inr (False, files)
            | Some f \<Rightarrow>
                if locked files file_path then Inl ''OSError''
                else Inr (True, files \<lparr> contents := (contents files)(file_path := None) \<rparr>)))"

section \<open>The workflow coordinator (\<open>app/workflows/multi_agentic_workflow.py\<close>)\<close>

text \<open>The content of a message as a Python value: a \<open>str\<close>, or the list of its blocks.\<close>

fun block_value :: "block \<Rightarrow> pyval" where
  "block_value (StrBlock s) = PStr s"
| "block_value (DictBlock d) = PDict (map (\<lambda>(k, v). (k, PStr v)) d)"

fun content_value :: "content \<Rightarrow> pyval" where
  "content_value (Text s) = PStr s"
| "content_value (Blocks bs) = PList (map block_value bs)"

text \<open>
  The loop of \<open>_save_conversation\<close> that builds the list \<open>messages\<close>: a human message
  is appended with role \<open>user\<close>; an assistant message with content is appended with
  role \<open>assistant\<close> if it has no tool calls; every other message is skipped.
\<close>

fun persisted_messages :: "message list \<Rightarrow> pyval list" where
  "persisted_messages [] = []"
| "persisted_messages (HumanMessage c # ms) =
     PDict [(''role'', PStr ''user''), (''content'', PStr c)] # persisted_messages ms"
| "persisted_messages (AIMessage c tool_calls # ms) =
     (if truthy c then
        (if tool_calls = [] then
           PDict [(''role'', PStr ''assistant''), (''content'', content_value c)]
             # persisted_messages ms
         else persisted_messages ms)
      else persisted_messages ms)"
| "persisted_messages (m # ms) = persisted_messages ms"

text \<open>
  The coordinator object: its field \<open>_state\<close> and its conversation identifier. What it
  runs with: the environment of the node, the \<open>add_messages\<close> reducer of the graph
  library (a parameter) and the storage directory.
\<close>

record workflow =
  wf_state :: "state option"
  conversation_id :: string

record runtime =
  node_env :: env
  add_messages :: "message list \<Rightarrow> message list \<Rightarrow> message list"
  storage_dir :: string

text \<open>\<open>_save_conversation\<close>, on the directory \<open>files\<close> at time \<open>now\<close>.\<close>

definition wf_save_conversation :: "runtime \<Rightarrow> string \<Rightarrow> workflow \<Rightarrow> fs \<Rightarrow> exn + fs" where
  "wf_save_conversation rt now w files =
     (case wf_state w of
        None \<Rightarrow> Inr files
      | Some st \<Rightarrow>
          save_conversation (storage_dir rt) now files (conversation_id w)
            (persisted_messages (messages st))
            (Some [(''user_intent'', PStr (user_intent st)),
                   (''turn_count'', PInt (turn_count st))]))"

text \<open>
  How the graph library folds the dictionary a node returns into the state: a key of
  the update replaces the value of the state, but for \<open>messages\<close>, which goes through
  the reducer; a key the update lacks keeps its value.
\<close>

definition apply_update ::
  "(message list \<Rightarrow> message list \<Rightarrow> message list) \<Rightarrow> state \<Rightarrow> node_update \<Rightarrow> state" where
  "apply_update reducer st upd =
     st \<lparr> messages := (case upd_messages upd of
                         None \<Rightarrow> messages st | Some ms \<Rightarrow> reducer (messages st) ms),
          user_intent := (case upd_user_intent upd of
                            None \<Rightarrow> user_intent st | Some i \<Rightarrow> i),
          orchestrator_result := (case upd_orchestrator_result upd of
                                    None \<Rightarrow> orchestrator_result st | Some r \<Rightarrow> r),
          error := (case upd_error upd of None \<Rightarrow> error st | Some es \<Rightarrow> es) \<rparr>"

text \<open>
  Modelled from the spec: the wiring of the graph, which \<open>_create_workflow\<close> leaves as a
  \<open>Todo\<close> (the graph of the source has no node and no edge). Following sections 4.4
  and 4.5 of the specification, one run of the workflow is one run of the Router,
  \<open>OrchestratorNode.process\<close>, on the state, and its update is folded back into the
  state; following section 3, \<open>turn_count\<close> is incremented once for the round-trip.
  The second component is the log of classifier prompts.
\<close>

definition workflow_invoke :: "runtime \<Rightarrow> state \<Rightarrow> (exn + state) \<times> string list" where
  "workflow_invoke rt st =
     (let (upd, calls) = process (node_env rt) st
      in (Inr ((apply_update (add_messages rt) st upd) \<lparr> turn_count := turn_count st + 1 \<rparr>),
          calls))"

text \<open>The dictionary returned by \<open>process_query\<close>; \<open>None\<close> in \<open>response\<close> is Python's \<open>None\<close>.\<close>

record query_result =
  qr_success :: bool
  qr_response :: "content option"
  qr_state :: "state option"
  qr_error :: "string option"

definition FALLBACK :: content where
  "FALLBACK = Text ''Hi there! What's up?''"

text \<open>The \<open>except Exception\<close> branch of \<open>process_query\<close>.\<close>

definition query_failed :: "exn \<Rightarrow> query_result" where
  "query_failed e =
     \<lparr> qr_success = False, qr_response = Some FALLBACK, qr_state = None, qr_error = Some e \<rparr>"

text \<open>
  \<open>_get_current_state\<close> and \<open>process_query\<close>. \<open>_get_current_state\<close> creates the
  state if there is none, and the two assignments to \<open>state[...]\<close> change the
  coordinator's own state object, so they stay when the run of the workflow raises. \<open>final_state.get("orchestrator_result", ...)\<close>
  finds the key, which every state has, and returns its value. The result is the returned
  dictionary, the coordinator and the directory afterwards, and the classifier log.
\<close>

definition get_current_state :: "workflow \<Rightarrow> state" where
  "get_current_state w = (case wf_state w of None \<Rightarrow> get_initial_state | Some s \<Rightarrow> s)"

definition process_query ::
  "runtime \<Rightarrow> string \<Rightarrow> workflow \<times> fs \<Rightarrow> string
     \<Rightarrow> query_result \<times> (workflow \<times> fs) \<times> string list" where
  "process_query rt now ws user_message =
     (let (w, files) = ws;
          st0 = get_current_state w;
          st1 = st0 \<lparr> messages := messages st0 @ [HumanMessage user_message],
                     user_query := user_message \<rparr>;
          w1 = w \<lparr> wf_state := Some st1 \<rparr>
      in case workflow_invoke rt st1 of
           (Inl e, calls) \<Rightarrow> (query_failed e, (w1, files), calls)
         | (Inr final_state, calls) \<Rightarrow>
             (let w2 = w1 \<lparr> wf_state := Some final_state \<rparr>
              in case wf_save_conversation rt now w2 files of
                   Inl e \<Rightarrow> (query_failed e, (w2, files), calls)
                 | Inr files' \<Rightarrow>
                     (\<lparr> qr_success = True,
                        qr_response = orchestrator_result final_state,
                        qr_state = Some final_state,
                        qr_error = None \<rparr>, (w2, files'), calls)))"

text \<open>\<open>chat\<close>: the key \<open>response\<close> is in every dictionary \<open>process_query\<close> returns.\<close>

definition chat :: "runtime \<Rightarrow> string \<Rightarrow> workflow \<times> fs \<Rightarrow> string \<Rightarrow> content option" where
  "chat rt now ws user_message = qr_response (fst (process_query rt now ws user_message))"

text \<open>
  A session: the turns \<open>(now, user_message)\<close> run one after the other on the same
  coordinator; the result is the coordinator and the directory after the last turn.
\<close>

fun run_turns :: "runtime \<Rightarrow> workflow \<times> fs \<Rightarrow> (string \<times> string) list \<Rightarrow> workflow \<times> fs" where
  "run_turns rt ws [] = ws"
| "run_turns rt ws ((now, user_message) # turns) =
     run_turns rt (fst (snd (process_query rt now ws user_message))) turns"

section \<open>The capability handlers (\<open>app/agents\<close>)\<close>

text \<open>
  \<open>get_conversation_context\<close> of \<open>app/agents/state.py\<close>, with \<open>max_messages = 6\<close>.
  \<open>context_parts\<close> is its loop. For an assistant message whose content is a list, the
  slice and \<open>+ "..."\<close> raise \<open>TypeError\<close> when the list has more than 100 blocks;
  otherwise the f-string renders the list with \<open>str\<close>, the parameter \<open>render\<close>.
\<close>

fun context_parts :: "(block list \<Rightarrow> string) \<Rightarrow> message list \<Rightarrow> exn + string list" where
  "context_parts render [] = Inr []"
| "context_parts render (HumanMessage c # ms) =
     (case context_parts render ms of Inl e \<Rightarrow> Inl e | Inr ps \<Rightarrow> Inr ((''User: '' @ c) # ps))"
| "context_parts render (AIMessage c tool_calls # ms) =
     (if truthy c then
        (if tool_calls = [] then
           (case c of
              Text t \<Rightarrow>
                (case context_parts render ms of
                   Inl e \<Rightarrow> Inl e
                 | Inr ps \<Rightarrow>
                     Inr ((''Exam Helper: '' @ (if length t > 100 then take 100 t @ ''...'' else t))
                          # ps))
            | Blocks bs \<Rightarrow>
                (if length bs > 100
                 then Inl (''can only concatenate list (not '' @ [CHR 0x22] @ ''str'' @
                           [CHR 0x22] @ '') to list'')
                 else (case context_parts render ms of
                         Inl e \<Rightarrow> Inl e
                       | Inr ps \<Rightarrow> Inr ((''Exam Helper: '' @ render bs) # ps))))
         else context_parts render ms)
      else context_parts render ms)"
| "context_parts render (m # ms) = context_parts render ms"

definition get_conversation_context :: "(block list \<Rightarrow> string) \<Rightarrow> state \<Rightarrow> exn + string" where
  "get_conversation_context render st =
     (case context_parts render (drop (length (messages st) - 6) (messages st)) of
        Inl e \<Rightarrow> Inl e
      | Inr ps \<Rightarrow> Inr (join_lines ps))"

text \<open>
  The dictionary a handler returns: the flag \<open>success\<close>, the result under the key
  \<open>get_result_key()\<close> (\<open>None\<close> is Python's \<open>None\<close>), the key \<open>messages\<close> that only
  the orchestrator adds, and the list \<open>error\<close>. The result is the content of a reply
  or, for the orchestrator, the result of the tool-calling loop.
\<close>

datatype payload = Reply content | Trace "message list"

record handler_result =
  hr_success :: bool
  hr_key :: string
  hr_payload :: "payload option"
  hr_messages :: "message list option"
  hr_error :: "string list"

text \<open>The \<open>except Exception\<close> branch that the four handlers share.\<close>

definition handler_failed :: "string \<Rightarrow> exn \<Rightarrow> handler_result" where
  "handler_failed key e =
     \<lparr> hr_success = False, hr_key = key, hr_payload = None, hr_messages = None,
       hr_error = [e] \<rparr>"

text \<open>
  \<open>BaseAgent.process_query\<close>. The abstract methods \<open>get_prompt\<close> and
  \<open>get_result_key\<close> and the model are parameters; the model receives the two
  role/content dictionaries.
\<close>

definition base_process_query ::
  "(state option \<Rightarrow> exn + string) \<Rightarrow> string \<Rightarrow> ((string \<times> string) list list \<Rightarrow> exn + content)
     \<Rightarrow> string \<Rightarrow> state option \<Rightarrow> handler_result" where
  "base_process_query prompt_of key ainvoke query st =
     (case prompt_of st of
        Inl e \<Rightarrow> handler_failed key e
      | Inr prompt \<Rightarrow>
          (case ainvoke [[(''role'', ''system''), (''content'', prompt)],
                         [(''role'', ''user''), (''content'', query)]] of
             Inl e \<Rightarrow> handler_failed key e
           | Inr c \<Rightarrow>
               \<lparr> hr_success = True, hr_key = key, hr_payload = Some (Reply c),
                 hr_messages = None, hr_error = [] \<rparr>))"

text \<open>\<open>ExplainerAgent\<close>: the prompt template has no placeholder.\<close>

definition EXPLAINER_AGENT_PROMPT :: "string \<Rightarrow> string" where
  "EXPLAINER_AGENT_PROMPT context = [CHR 0x0A] @ ''Todo'' @ [CHR 0x0A]"

definition explainer_get_prompt :: "(block list \<Rightarrow> string) \<Rightarrow> state option \<Rightarrow> exn + string" where
  "explainer_get_prompt render st =
     (case (case st of None \<Rightarrow> Inr [] | Some s \<Rightarrow> get_conversation_context render s) of
        Inl e \<Rightarrow> Inl e
      | Inr context \<Rightarrow> Inr (EXPLAINER_AGENT_PROMPT context))"

definition explainer_process_query ::
  "(block list \<Rightarrow> string) \<Rightarrow> (message list \<Rightarrow> exn + content) \<Rightarrow> string \<Rightarrow> state option
     \<Rightarrow> handler_result" where
  "explainer_process_query render ainvoke query st =
     (case explainer_get_prompt render st of
        Inl e \<Rightarrow> handler_failed ''explainer_agent_result'' e
      | Inr prompt \<Rightarrow>
          (case ainvoke [SystemMessage prompt, HumanMessage query] of
             Inl e \<Rightarrow> handler_failed ''explainer_agent_result'' e
           | Inr c \<Rightarrow>
               \<lparr> hr_success = True, hr_key = ''explainer_agent_result'',
                 hr_payload = Some (Reply c), hr_messages = None, hr_error = [] \<rparr>))"

text \<open>
  \<open>LearnerAgent\<close>. \<open>_extract_text_from_message\<close> reads the attribute \<open>content\<close> of a
  message; of a list content it keeps the \<open>text\<close> member of a \<open>dict\<close> (the empty
  string when there is none) and every \<open>str\<close>, drops the parts that are blank and
  joins the rest.
\<close>

fun content_of :: "message \<Rightarrow> content" where
  "content_of (HumanMessage c) = Text c"
| "content_of (AIMessage c tool_calls) = c"
| "content_of (ToolMessage c) = c"
| "content_of (SystemMessage c) = Text c"

fun block_part :: "block \<Rightarrow> string" where
  "block_part (DictBlock d) = (case map_of d ''text'' of None \<Rightarrow> [] | Some t \<Rightarrow> t)"
| "block_part (StrBlock s) = s"

definition extract_text_from_message :: "message \<Rightarrow> content" where
  "extract_text_from_message message =
     (case content_of message of
        Blocks bs \<Rightarrow> Text (join_lines (filter (\<lambda>p. py_strip p \<noteq> []) (map block_part bs)))
      | Text t \<Rightarrow> Text t)"

definition LEARNER_AGENT_PROMPT :: "string \<Rightarrow> string" where
  "LEARNER_AGENT_PROMPT context =
     [CHR 0x0A, CHR 0x0A] @ ''Todo'' @ [CHR 0x0A, CHR 0x0A] @ ''CONVERSATION CONTEXT:'' @
     [CHR 0x0A] @ context @ [CHR 0x0A, CHR 0x0A]"

definition learner_get_prompt :: "(block list \<Rightarrow> string) \<Rightarrow> state option \<Rightarrow> exn + string" where
  "learner_get_prompt render st =
     (case (case st of None \<Rightarrow> Inr [] | Some s \<Rightarrow> get_conversation_context render s) of
        Inl e \<Rightarrow> Inl e
      | Inr context \<Rightarrow> Inr (LEARNER_AGENT_PROMPT context))"

text \<open>
  \<open>LearnerAgent.process_query\<close>. The parameter \<open>agent\<close> is the tool-using loop that
  \<open>create_agent\<close> builds from the prompt, run on the messages; \<open>result["messages"][-1]\<close>
  raises \<open>IndexError\<close> on an empty list.
\<close>

definition learner_process_query ::
  "(block list \<Rightarrow> string) \<Rightarrow> (string \<Rightarrow> message list \<Rightarrow> exn + message list) \<Rightarrow> string
     \<Rightarrow> state option \<Rightarrow> handler_result" where
  "learner_process_query render agent query st =
     (case learner_get_prompt render st of
        Inl e \<Rightarrow> handler_failed ''learner_agent_result'' e
      | Inr prompt \<Rightarrow>
          (case agent prompt [HumanMessage query] of
             Inl e \<Rightarrow> handler_failed ''learner_agent_result'' e
           | Inr result \<Rightarrow>
               (if result = [] then handler_failed ''learner_agent_result'' ''list index out of range''
                else \<lparr> hr_success = True, hr_key = ''learner_agent_result'',
                       hr_payload = Some (Reply (extract_text_from_message (last result))),
                       hr_messages = None, hr_error = [] \<rparr>)))"

text \<open>
  \<open>OrchestratorAgent.process_query\<close>. The parameter \<open>agent\<close> is the tool-calling loop
  of \<open>create_react_agent\<close>; its result is returned whole under the result key, and its
  messages under \<open>messages\<close>.
\<close>

definition orchestrator_process_query ::
  "(string \<Rightarrow> message list \<Rightarrow> exn + message list) \<Rightarrow> string \<Rightarrow> state option \<Rightarrow> handler_result" where
  "orchestrator_process_query agent query st =
     (case agent (orchestrator_get_prompt st)
                 (case st of None \<Rightarrow> [] | Some s \<Rightarrow> messages s) of
        Inl e \<Rightarrow> handler_failed ''orchestrator_result'' e
      | Inr result \<Rightarrow>
          \<lparr> hr_success = True, hr_key = ''orchestrator_result'',
            hr_payload = Some (Trace result), hr_messages = Some result, hr_error = [] \<rparr>)"

text \<open>
  The shape the specification asks of a handler result: with \<open>success\<close> the payload is
  there and the error list is empty; without it the payload is absent and the error
  list is not empty.
\<close>

definition well_formed :: "handler_result \<Rightarrow> bool" where
  "well_formed r =
     (if hr_success r then hr_payload r \<noteq> None \<and> hr_error r = []
      else hr_payload r = None \<and> hr_error r \<noteq> [])"

section \<open>The persisted form of a message, in the words of the specification\<close>

text \<open>
  The specification says which messages are persisted: the user messages, and the
  assistant messages that have content and no tool calls. \<open>persistable\<close> is that test
  and \<open>persisted_form\<close> the role/content dictionary of such a message.
\<close>

fun persistable :: "message \<Rightarrow> bool" where
  "persistable (HumanMessage c) = True"
| "persistable (AIMessage c tool_calls) = (truthy c \<and> tool_calls = [])"
| "persistable (ToolMessage c) = False"
| "persistable (SystemMessage c) = False"

fun persisted_form :: "message \<Rightarrow> pyval" where
  "persisted_form (HumanMessage c) = PDict [(''role'', PStr ''user''), (''content'', PStr c)]"
| "persisted_form m =
     PDict [(''role'', PStr ''assistant''), (''content'', content_value (content_of m))]"

section \<open>Concrete environments and sessions\<close>

text \<open>
  An environment whose classifier answers \<open>Explain \<close> and whose tool-calling loop
  answers with one assistant message appended to the messages it was given; an
  environment whose tool-calling loop raises; a runtime around an environment, whose
  reducer keeps the list of the update (the update of the node repeats the old messages);
  an empty directory in which every name is accepted and every path can be written;
  a coordinator without state over it.
\<close>

definition empty_dir :: fs where
  "empty_dir = \<lparr> contents = Map.empty, refused = (\<lambda>p. False), locked = (\<lambda>p. False) \<rparr>"

definition answering_env :: "string \<Rightarrow> env" where
  "answering_env answer =
     \<lparr> api_key = Some ''key'',
       llm_invoke = (\<lambda>prompt. Inr (Text ''Explain '')),
       get_agent_tools = Inr (),
       get_prompt = (\<lambda>st. Inr (orchestrator_get_prompt (Some st))),
       agent_invoke = (\<lambda>prompt ms. Inr (ms @ [AIMessage (Text answer) []])) \<rparr>"

definition failing_env :: env where
  "failing_env =
     \<lparr> api_key = Some ''key'',
       llm_invoke = (\<lambda>prompt. Inr (Text ''Explain '')),
       get_agent_tools = Inr (),
       get_prompt = (\<lambda>st. Inr (orchestrator_get_prompt (Some st))),
       agent_invoke = (\<lambda>prompt ms. Inl ''boom'') \<rparr>"

definition runtime_of :: "env \<Rightarrow> runtime" where
  "runtime_of ev =
     \<lparr> node_env = ev, add_messages = (\<lambda>old new. new), storage_dir = ''data/conversations'' \<rparr>"


text \<open>The state at the start of a second turn: one question answered, one asked.\<close>

definition second_turn_state :: state where
  "second_turn_state =
     get_initial_state
       \<lparr> messages := [HumanMessage ''q1'', AIMessage (Text ''a1'') [], HumanMessage ''q2''],
         user_query := ''q2'', user_intent := ''explain'' \<rparr>"

text \<open>A coordinator that holds that state, over an empty directory.\<close>

definition second_turn_session :: "workflow \<times> fs" where
  "second_turn_session =
     (\<lparr> wf_state = Some second_turn_state, conversation_id = ''s1'' \<rparr>, empty_dir)"

text \<open>
  A state whose trace interleaves tool traffic with one user and one assistant message,
  and the coordinator that holds it.
\<close>

definition tool_turn_state :: state where
  "tool_turn_state =
     get_initial_state
       \<lparr> messages := [HumanMessage ''Can you explain recursion?'',
                       AIMessage (Text []) [''explainer''],
                       ToolMessage (Text ''Recursion is ...''),
                       AIMessage (Text ''Recursion is when a function calls itself.'') []],
         user_query := ''Can you explain recursion?'', user_intent := ''explain'' \<rparr>"

definition tool_turn_workflow :: workflow where
  "tool_turn_workflow = \<lparr> wf_state = Some tool_turn_state, conversation_id = ''s1'' \<rparr>"

text \<open>
  A directory in which the record of \<open>s1\<close> holds bytes that are not text, and one in
  which it holds the JSON array \<open>[1]\<close>.
\<close>

definition undecodable_dir :: fs where
  "undecodable_dir =
     empty_dir \<lparr> contents :=
       [get_conversation_path ''data/conversations'' ''s1'' \<mapsto> Undecodable] \<rparr>"

definition array_dir :: fs where
  "array_dir =
     empty_dir \<lparr> contents :=
       [get_conversation_path ''data/conversations'' ''s1'' \<mapsto> Parsed (JArr [JNum 1])] \<rparr>"



section \<open>Properties of the classifier\<close>

lemma py_isspace_lower: "py_isspace (py_lower_char c) = py_isspace c"
  unfolding py_isspace_def py_lower_char_def Let_def
  by (auto simp: of_char_of)

lemma py_lower_strip: "py_lower (py_strip r) = py_strip (py_lower r)"
proof -
  have comp: "py_isspace \<circ> py_lower_char = py_isspace"
    by (rule ext) (simp add: py_isspace_lower)
  show ?thesis
    by (simp add: py_lower_def py_strip_def rev_map dropWhile_map comp)
qed

lemma detect_intent_range:
  "fst (detect_intent k llm m) \<in> {''explain'', ''learn'', ''unknown''}"
  unfolding detect_intent_def Let_def
  by (auto split: sum.splits content.splits)

lemma detect_intent_calls: "length (snd (detect_intent k llm m)) \<le> 1"
  unfolding detect_intent_def Let_def
  by (auto split: sum.splits content.splits)

lemma detect_intent_accepts:
  assumes "get_llm k = Inr ()" and "llm (INTENT_DETECTOR_PROMPT m) = Inr (Text r)"
  shows "fst (detect_intent k llm m) =
           (if py_lower (py_strip r) = ''explain'' \<or> py_lower (py_strip r) = ''learn''
            then py_lower (py_strip r) else ''unknown'')"
  using assms unfolding detect_intent_def Let_def by simp

lemma detect_intent_raises:
  assumes "get_llm k = Inl e \<or> llm (INTENT_DETECTOR_PROMPT m) = Inl e
           \<or> llm (INTENT_DETECTOR_PROMPT m) = Inr (Blocks bs)"
  shows "fst (detect_intent k llm m) = ''unknown''"
  using assms unfolding detect_intent_def Let_def
  by (auto split: sum.splits content.splits)

text \<open>
  C5. \<open>detect_intent\<close> always returns one of \<open>explain\<close>, \<open>learn\<close>, \<open>unknown\<close>. When the
  completion call returns a text reply, the result is the reply trimmed and lower-cased
  (in either order) if that is exactly \<open>explain\<close> or \<open>learn\<close>, and \<open>unknown\<close> for every
  other reply. When the credential is missing, the completion call raises or the reply
  is not a string, the result is \<open>unknown\<close>. At most one completion call is made, and
  the function is total: it never raises.
\<close>

theorem detect_intent_classifies:
  "fst (detect_intent k llm m) \<in> {''explain'', ''learn'', ''unknown''}
   \<and> py_lower (py_strip r) = py_strip (py_lower r)
   \<and> (get_llm k = Inr () \<and> llm (INTENT_DETECTOR_PROMPT m) = Inr (Text r)
        \<and> (py_lower (py_strip r) = ''explain'' \<or> py_lower (py_strip r) = ''learn'')
        \<longrightarrow> fst (detect_intent k llm m) = py_lower (py_strip r))
   \<and> (get_llm k = Inr () \<and> llm (INTENT_DETECTOR_PROMPT m) = Inr (Text r)
        \<and> py_lower (py_strip r) \<noteq> ''explain'' \<and> py_lower (py_strip r) \<noteq> ''learn''
        \<longrightarrow> fst (detect_intent k llm m) = ''unknown'')
   \<and> (get_llm k = Inl e \<or> llm (INTENT_DETECTOR_PROMPT m) = Inl e
        \<or> llm (INTENT_DETECTOR_PROMPT m) = Inr (Blocks bs)
        \<longrightarrow> fst (detect_intent k llm m) = ''unknown'')
   \<and> length (snd (detect_intent k llm m)) \<le> 1"
proof -
  have accept: "get_llm k = Inr () \<and> llm (INTENT_DETECTOR_PROMPT m) = Inr (Text r)
        \<and> (py_lower (py_strip r) = ''explain'' \<or> py_lower (py_strip r) = ''learn'')
        \<longrightarrow> fst (detect_intent k llm m) = py_lower (py_strip r)"
    using detect_intent_accepts [of k llm m r] by auto
  have reject: "get_llm k = Inr () \<and> llm (INTENT_DETECTOR_PROMPT m) = Inr (Text r)
        \<and> py_lower (py_strip r) \<noteq> ''explain'' \<and> py_lower (py_strip r) \<noteq> ''learn''
        \<longrightarrow> fst (detect_intent k llm m) = ''unknown''"
    using detect_intent_accepts [of k llm m r] by auto
  have raise: "get_llm k = Inl e \<or> llm (INTENT_DETECTOR_PROMPT m) = Inl e
        \<or> llm (INTENT_DETECTOR_PROMPT m) = Inr (Blocks bs)
        \<longrightarrow> fst (detect_intent k llm m) = ''unknown''"
    using detect_intent_raises [of k e llm m bs] by blast
  show ?thesis
    using detect_intent_range [of k llm m] py_lower_strip [of r] accept reject raise
      detect_intent_calls [of k llm m]
    by blast
qed

text \<open>
  The examples of the specification: the reply \<open>Explain \<close>, mixed case with a trailing
  space, gives \<open>explain\<close>; the reply \<open>banana\<close> gives \<open>unknown\<close>; so does a raise.
\<close>

theorem detect_intent_classifies_witness:
  "fst (detect_intent (Some ''key'') (\<lambda>p. Inr (Text ''Explain '')) ''What is a stack?'') = ''explain''
   \<and> fst (detect_intent (Some ''key'') (\<lambda>p. Inr (Text ''banana'')) ''What is a stack?'') = ''unknown''
   \<and> fst (detect_intent (Some ''key'') (\<lambda>p. Inl ''timeout'') ''What is a stack?'') = ''unknown''"
proof -
  have key: "get_llm (Some ''key'') = Inr ()"
    by (simp add: get_llm_def)
  have e: "py_lower (py_strip ''Explain '') = ''explain''"
    by code_simp
  have b: "py_lower (py_strip ''banana'') = ''banana''"
    by code_simp
  have "fst (detect_intent (Some ''key'') (\<lambda>p. Inr (Text ''Explain '')) ''What is a stack?'') = ''explain''"
    using detect_intent_classifies
      [of "Some ''key''" "\<lambda>p. Inr (Text ''Explain '')" "''What is a stack?''" "''Explain ''"]
      key e by simp
  moreover have "fst (detect_intent (Some ''key'') (\<lambda>p. Inr (Text ''banana'')) ''What is a stack?'') = ''unknown''"
    using detect_intent_classifies
      [of "Some ''key''" "\<lambda>p. Inr (Text ''banana'')" "''What is a stack?''" "''banana''"]
      key b by simp
  moreover have "fst (detect_intent (Some ''key'') (\<lambda>p. Inl ''timeout'') ''What is a stack?'') = ''unknown''"
    using detect_intent_classifies
      [of "Some ''key''" "\<lambda>p. Inl ''timeout''" "''What is a stack?''" _ "''timeout''"]
    by simp
  ultimately show ?thesis by blast
qed

section \<open>Properties of the orchestrator node and the coordinator\<close>

text \<open>
  C1. The claim asks for the last assistant message with content and no tool calls when
  the trace has no tool output. At the start of a second turn the trace given to the
  tool-calling loop holds the first answer \<open>a1\<close>; the loop appends the new answer
  \<open>a2\<close>. The scan of \<open>process\<close> does not stop at \<open>a2\<close>: it goes on to the front of
  the trace and the reply is \<open>a1\<close>, the first such message.
\<close>

theorem process_reply_is_first_assistant_message:
  "fst (process (answering_env ''a2'') second_turn_state) =
     \<lparr> upd_messages = Some [HumanMessage ''q1'', AIMessage (Text ''a1'') [],
                             HumanMessage ''q2'', AIMessage (Text ''a2'') []],
       upd_user_intent = Some ''explain'',
       upd_orchestrator_result = Some (Some (Text ''a1'')),
       upd_error = None \<rparr>"
  by code_simp

lemma process_query_state:
  "\<exists>calls u.
     wf_state (fst (fst (snd (process_query rt now (w, files) m)))) =
       Some ((apply_update (add_messages rt)
               ((get_current_state w)
                  \<lparr> messages := messages (get_current_state w) @ [HumanMessage m],
                    user_query := m \<rparr>) u)
             \<lparr> turn_count := turn_count (get_current_state w) + 1 \<rparr>)
     \<and> (u, calls) =
         process (node_env rt)
           ((get_current_state w)
              \<lparr> messages := messages (get_current_state w) @ [HumanMessage m],
                user_query := m \<rparr>)"
  unfolding process_query_def workflow_invoke_def Let_def
  by (auto split: sum.splits prod.splits)





lemma process_known_calls:
  "user_intent st \<noteq> ''unknown'' \<Longrightarrow> snd (process ev st) = []"
  unfolding process_def Let_def
  by (auto split: sum.splits prod.splits)

lemma process_known_intent:
  "user_intent st \<noteq> ''unknown'' \<Longrightarrow>
   upd_user_intent (fst (process ev st)) =
     (if upd_error (fst (process ev st)) = None then Some (user_intent st) else None)"
  unfolding process_def Let_def node_failed_def
  by (auto split: sum.splits prod.splits)

lemma apply_update_known_intent:
  assumes "user_intent st \<noteq> ''unknown''"
  shows "user_intent (apply_update r st (fst (process ev st))) = user_intent st"
  using process_known_intent [OF assms, of ev]
  by (simp add: apply_update_def split: option.splits if_splits)

lemma process_query_known_intent:
  assumes "user_intent (get_current_state w) \<noteq> ''unknown''"
  shows "user_intent (get_current_state (fst (fst (snd (process_query rt now (w, files) m))))) =
         user_intent (get_current_state w)"
proof -
  let ?st1 = "(get_current_state w)
                \<lparr> messages := messages (get_current_state w) @ [HumanMessage m],
                  user_query := m \<rparr>"
  obtain calls u where
    s: "wf_state (fst (fst (snd (process_query rt now (w, files) m)))) =
          Some ((apply_update (add_messages rt) ?st1 u)
                \<lparr> turn_count := turn_count (get_current_state w) + 1 \<rparr>)"
    and u: "(u, calls) = process (node_env rt) ?st1"
    using process_query_state by blast
  have known: "user_intent ?st1 \<noteq> ''unknown''"
    using assms by simp
  have "u = fst (process (node_env rt) ?st1)"
    using u by (metis fst_conv)
  then have "user_intent (apply_update (add_messages rt) ?st1 u) = user_intent ?st1"
    using apply_update_known_intent [OF known] by simp
  then show ?thesis
    using s by (simp add: get_current_state_def)
qed

lemma run_turns_known_intent:
  "user_intent (get_current_state (fst ws)) \<noteq> ''unknown'' \<Longrightarrow>
   user_intent (get_current_state (fst (run_turns rt ws turns))) =
   user_intent (get_current_state (fst ws))"
proof (induction turns arbitrary: ws)
  case Nil
  then show ?case by simp
next
  case (Cons t turns)
  obtain now m where t: "t = (now, m)" by (cases t)
  obtain w files where ws: "ws = (w, files)" by (cases ws)
  let ?next = "fst (snd (process_query rt now (w, files) m))"
  have step: "user_intent (get_current_state (fst ?next)) = user_intent (get_current_state w)"
    using process_query_known_intent [of w rt now files m] Cons.prems by (simp add: ws)
  then have "user_intent (get_current_state (fst ?next)) \<noteq> ''unknown''"
    using Cons.prems by (simp add: ws)
  then show ?case
    using Cons.IH [of ?next] step by (simp add: t ws)
qed

text \<open>
  C4. Let the intent of the state be \<open>explain\<close> or \<open>learn\<close>. Then \<open>process\<close> sends
  nothing to the classifier; the dictionary it returns carries the same \<open>user_intent\<close>
  when the node succeeds and has no \<open>user_intent\<close> key when it fails, so that the state
  the update is folded into keeps the intent; and a coordinator holding that state
  keeps the intent through \<open>process_query\<close> and through every sequence of turns: it
  never goes back to \<open>unknown\<close>.
\<close>

theorem intent_is_sticky:
  assumes "user_intent st = ''explain'' \<or> user_intent st = ''learn''"
  shows "snd (process ev st) = []
    \<and> upd_user_intent (fst (process ev st)) =
        (if upd_error (fst (process ev st)) = None then Some (user_intent st) else None)
    \<and> user_intent (apply_update r st (fst (process ev st))) = user_intent st
    \<and> (wf_state w = Some st \<longrightarrow>
         user_intent (get_current_state (fst (fst (snd (process_query rt now (w, files) m)))))
           = user_intent st
         \<and> user_intent (get_current_state (fst (run_turns rt (w, files) turns)))
           = user_intent st
         \<and> user_intent (get_current_state (fst (run_turns rt (w, files) turns)))
           \<noteq> ''unknown'')"
proof -
  have known: "user_intent st \<noteq> ''unknown''"
    using assms by auto
  have session: "wf_state w = Some st \<longrightarrow>
         user_intent (get_current_state (fst (fst (snd (process_query rt now (w, files) m)))))
           = user_intent st
         \<and> user_intent (get_current_state (fst (run_turns rt (w, files) turns)))
           = user_intent st
         \<and> user_intent (get_current_state (fst (run_turns rt (w, files) turns)))
           \<noteq> ''unknown''"
  proof
    assume w: "wf_state w = Some st"
    then have cur: "get_current_state w = st"
      by (simp add: get_current_state_def)
    show "user_intent (get_current_state (fst (fst (snd (process_query rt now (w, files) m)))))
           = user_intent st
         \<and> user_intent (get_current_state (fst (run_turns rt (w, files) turns)))
           = user_intent st
         \<and> user_intent (get_current_state (fst (run_turns rt (w, files) turns)))
           \<noteq> ''unknown''"
      using process_query_known_intent [of w rt now files m]
        run_turns_known_intent [of "(w, files)" rt turns] known cur
      by simp
  qed
  show ?thesis
    using process_known_calls [OF known, of ev] process_known_intent [OF known, of ev]
      apply_update_known_intent [OF known, of r ev] session
    by blast
qed

theorem intent_is_sticky_witness:
  "(user_intent second_turn_state = ''explain'' \<or> user_intent second_turn_state = ''learn'')
   \<and> wf_state (fst second_turn_session) = Some second_turn_state
   \<and> snd (process (answering_env ''a2'') second_turn_state) = []
   \<and> user_intent (get_current_state (fst (run_turns (runtime_of (answering_env ''a2''))
        (fst second_turn_session, snd second_turn_session)
        [(''t2'', ''thanks''), (''t3'', ''and a queue?'')]))) = ''explain''"
proof -
  have i: "user_intent second_turn_state = ''explain''"
    by (simp add: second_turn_state_def)
  then have h: "user_intent second_turn_state = ''explain'' \<or> user_intent second_turn_state = ''learn''"
    by simp
  have w: "wf_state (fst second_turn_session) = Some second_turn_state"
    by (simp add: second_turn_session_def)
  show ?thesis
    using i w intent_is_sticky [OF h, of "answering_env ''a2''" _ "fst second_turn_session"
        "runtime_of (answering_env ''a2'')" _ "snd second_turn_session" _
        "[(''t2'', ''thanks''), (''t3'', ''and a queue?'')]"]
    by simp
qed

section \<open>Properties of the conversation store\<close>

lemma json_of_py_of: "json_of (py_of j) = j"
  by (induction j) (auto simp: prod.map_comp intro!: map_idI)



lemma save_succeeds:
  assumes "\<not> refused files (get_conversation_path d cid)"
    and "\<not> locked files (get_conversation_path d cid)"
    and "contents files (get_conversation_path d cid) = None
           \<or> contents files (get_conversation_path d cid) = Some Malformed
           \<or> contents files (get_conversation_path d cid) = Some (Parsed (JObj kvs))"
  shows "\<exists>files'. save_conversation d now files cid msgs meta = Inr files'"
  using assms unfolding save_conversation_def Let_def
  by (auto split: option.splits stored_file.splits sum.splits)

lemma save_stores:
  assumes "save_conversation d now files cid msgs meta = Inr files'"
  shows "\<exists>c. files' =
           files \<lparr> contents := (contents files)(get_conversation_path d cid \<mapsto> Parsed (JObj
             [(''conversation_id'', JStr cid), (''updated_at'', JStr now),
              (''messages'', JArr (map json_of msgs)),
              (''metadata'', JObj (map (map_prod id json_of)
                                     (case meta of None \<Rightarrow> [] | Some m \<Rightarrow> m))),
              (''created_at'', c)])) \<rparr>
         \<and> \<not> refused files (get_conversation_path d cid)
         \<and> \<not> locked files (get_conversation_path d cid)"
  using assms unfolding save_conversation_def Let_def
  by (auto simp: json_of_py_of split: option.splits stored_file.splits sum.splits if_splits)

lemma load_stored:
  assumes "contents files p = Some (Parsed (JObj kvs))" and "\<not> refused files p"
    and "p = get_conversation_path d cid"
  shows "load_conversation d files cid = Inr (Some (JObj kvs))"
  using assms unfolding load_conversation_def by simp

lemma get_messages_stored:
  assumes "contents files p = Some (Parsed (JObj kvs))" and "\<not> refused files p"
    and "p = get_conversation_path d cid"
    and "kvs \<noteq> []" and "map_of kvs ''messages'' = Some v"
  shows "get_messages d files cid = Inr v"
  using assms unfolding get_messages_def load_conversation_def by simp

lemma path_alias:
  "safe_id a = safe_id b \<Longrightarrow> get_conversation_path d a = get_conversation_path d b"
  by (simp add: get_conversation_path_def)




text \<open>
  C9. \<open>load_conversation\<close> guards the read with
  \<open>except (json.JSONDecodeError, IOError)\<close>. A record file whose bytes are not text
  makes the read raise \<open>UnicodeDecodeError\<close>, which is neither: the exception leaves
  \<open>load_conversation\<close> and, through it, \<open>get_messages\<close>. A record file that holds a
  JSON array loads, and \<open>get_messages\<close> raises \<open>AttributeError\<close> on it.
\<close>

theorem load_conversation_raises:
  "load_conversation ''data/conversations'' undecodable_dir ''s1'' = Inl ''UnicodeDecodeError''
   \<and> get_messages ''data/conversations'' undecodable_dir ''s1'' = Inl ''UnicodeDecodeError''
   \<and> load_conversation ''data/conversations'' array_dir ''s1'' = Inr (Some (JArr [JNum 1]))
   \<and> get_messages ''data/conversations'' array_dir ''s1'' =
       Inl ([CHR 0x27] @ ''list'' @ [CHR 0x27] @ '' object has no attribute '' @
            [CHR 0x27] @ ''get'' @ [CHR 0x27])"
  by (simp add: load_conversation_def get_messages_def undecodable_dir_def array_dir_def
        empty_dir_def)

text \<open>
  C10. Two identifiers that are equal after the replacement of \<open>/\<close> and \<open>\\<close> by \<open>_\<close>
  have the same path, so every operation of the store gives the same result on both:
  \<open>load_conversation\<close>, \<open>get_messages\<close> and \<open>delete_conversation\<close> agree on any
  directory, and after a \<open>save_conversation\<close> under the first identifier the second
  one loads that very record (it carries the first identifier and the saved messages),
  gets its messages, and deletes it, after which the first identifier finds nothing.
\<close>

theorem sanitized_ids_alias:
  assumes "safe_id a = safe_id b"
  shows "get_conversation_path d a = get_conversation_path d b
    \<and> load_conversation d files a = load_conversation d files b
    \<and> get_messages d files a = get_messages d files b
    \<and> delete_conversation d files a = delete_conversation d files b
    \<and> (save_conversation d now files a msgs meta = Inr files' \<longrightarrow>
         get_messages d files' b = Inr (JArr (map json_of msgs))
         \<and> (\<exists>kvs. load_conversation d files' b = Inr (Some (JObj kvs))
                \<and> map_of kvs ''conversation_id'' = Some (JStr a)
                \<and> map_of kvs ''messages'' = Some (JArr (map json_of msgs)))
         \<and> (\<exists>files''. delete_conversation d files' b = Inr (True, files'')
                \<and> load_conversation d files'' a = Inr None))"
proof -
  have p: "get_conversation_path d a = get_conversation_path d b"
    using assms by (rule path_alias)
  have same: "load_conversation d files a = load_conversation d files b
    \<and> get_messages d files a = get_messages d files b
    \<and> delete_conversation d files a = delete_conversation d files b"
    by (simp add: load_conversation_def get_messages_def delete_conversation_def p)
  have saved: "save_conversation d now files a msgs meta = Inr files' \<longrightarrow>
         get_messages d files' b = Inr (JArr (map json_of msgs))
         \<and> (\<exists>kvs. load_conversation d files' b = Inr (Some (JObj kvs))
                \<and> map_of kvs ''conversation_id'' = Some (JStr a)
                \<and> map_of kvs ''messages'' = Some (JArr (map json_of msgs)))
         \<and> (\<exists>files''. delete_conversation d files' b = Inr (True, files'')
                \<and> load_conversation d files'' a = Inr None)"
  proof
    assume s: "save_conversation d now files a msgs meta = Inr files'"
    let ?md = "map (map_prod id json_of) (case meta of None \<Rightarrow> [] | Some x \<Rightarrow> x)"
    obtain c where f: "files' = files \<lparr> contents := (contents files)
             (get_conversation_path d a \<mapsto> Parsed (JObj
               [(''conversation_id'', JStr a), (''updated_at'', JStr now),
                (''messages'', JArr (map json_of msgs)), (''metadata'', JObj ?md),
                (''created_at'', c)])) \<rparr>"
      and acc: "\<not> refused files (get_conversation_path d a)"
      and wr: "\<not> locked files (get_conversation_path d a)"
      using save_stores [OF s] by blast
    let ?kvs = "[(''conversation_id'', JStr a), (''updated_at'', JStr now),
              (''messages'', JArr (map json_of msgs)), (''metadata'', JObj ?md),
              (''created_at'', c)]"
    have at: "contents files' (get_conversation_path d b) = Some (Parsed (JObj ?kvs))"
      by (simp add: f p)
    have acc': "\<not> refused files' (get_conversation_path d b)"
      and wr': "\<not> locked files' (get_conversation_path d b)"
      using acc wr by (simp_all add: f p)
    have g: "get_messages d files' b = Inr (JArr (map json_of msgs))"
      using at acc' by (rule get_messages_stored) simp_all
    have l: "load_conversation d files' b = Inr (Some (JObj ?kvs))"
      using at acc' by (rule load_stored) simp
    let ?gone = "files' \<lparr> contents := (contents files')(get_conversation_path d b := None) \<rparr>"
    have del: "delete_conversation d files' b = Inr (True, ?gone)"
      using at acc' wr' by (simp add: delete_conversation_def)
    have after: "load_conversation d ?gone a = Inr None"
      using acc' by (simp add: load_conversation_def p)
    have "\<exists>kvs. load_conversation d files' b = Inr (Some (JObj kvs))
                \<and> map_of kvs ''conversation_id'' = Some (JStr a)
                \<and> map_of kvs ''messages'' = Some (JArr (map json_of msgs))"
      using l by (intro exI [of _ ?kvs]) simp
    moreover have "\<exists>files''. delete_conversation d files' b = Inr (True, files'')
                \<and> load_conversation d files'' a = Inr None"
      using del after by blast
    ultimately show "get_messages d files' b = Inr (JArr (map json_of msgs))
         \<and> (\<exists>kvs. load_conversation d files' b = Inr (Some (JObj kvs))
                \<and> map_of kvs ''conversation_id'' = Some (JStr a)
                \<and> map_of kvs ''messages'' = Some (JArr (map json_of msgs)))
         \<and> (\<exists>files''. delete_conversation d files' b = Inr (True, files'')
                \<and> load_conversation d files'' a = Inr None)"
      using g by blast
  qed
  show ?thesis
    using p same saved by blast
qed

theorem sanitized_ids_alias_witness:
  "safe_id ''a/b'' = safe_id ''a_b''
   \<and> safe_id [CHR ''a'', CHR 0x5C, CHR ''b''] = safe_id ''a_b''
   \<and> ''a/b'' \<noteq> ''a_b''
   \<and> (\<exists>files'. save_conversation ''data'' ''t1'' empty_dir ''a/b'' [PStr ''m''] None = Inr files'
         \<and> get_messages ''data'' files' ''a_b'' = Inr (JArr [JStr ''m''])
         \<and> (\<exists>files''. delete_conversation ''data'' files' ''a_b'' = Inr (True, files'')
                \<and> load_conversation ''data'' files'' ''a/b'' = Inr None))"
proof -
  have h: "safe_id ''a/b'' = safe_id ''a_b''"
    by (simp add: safe_id_def replace_char_def)
  have h2: "safe_id [CHR ''a'', CHR 0x5C, CHR ''b''] = safe_id ''a_b''"
    by (simp add: safe_id_def replace_char_def)
  have "\<exists>files'. save_conversation ''data'' ''t1'' empty_dir ''a/b'' [PStr ''m''] None
          = Inr files'"
    by (rule save_succeeds [where kvs = "[]"]) (simp_all add: empty_dir_def)
  then obtain files' where
    s: "save_conversation ''data'' ''t1'' empty_dir ''a/b'' [PStr ''m''] None = Inr files'"
    by blast
  show ?thesis
    using h h2 s
      sanitized_ids_alias [OF h, of "''data''" empty_dir "''t1''" "[PStr ''m'']" None files']
    by auto
qed

section \<open>Properties of the persisted trace\<close>

lemma persisted_messages_filter:
  "persisted_messages ms = map persisted_form (filter persistable ms)"
  by (induction ms rule: persisted_messages.induct) auto

text \<open>
  C8. The list that \<open>_save_conversation\<close> builds from the trace is the list of the
  persisted forms of the user messages and of the assistant messages with content and no
  tool calls, in the order of the trace; tool results and assistant messages with tool
  calls are not among them. When the coordinator holds a state and the save returns,
  the JSON forms of that list are what the store holds as the messages of the
  conversation. Without a state nothing is written.
\<close>

theorem persisted_trace_has_no_tool_traffic:
  "persisted_messages ms = map persisted_form (filter persistable ms)
   \<and> \<not> persistable (ToolMessage c)
   \<and> \<not> persistable (AIMessage c (t # ts))
   \<and> (wf_state w = Some st \<and> wf_save_conversation rt now w files = Inr files' \<longrightarrow>
        get_messages (storage_dir rt) files' (conversation_id w) =
          Inr (JArr (map (\<lambda>m. json_of (persisted_form m))
                       (filter persistable (messages st)))))
   \<and> (wf_state w = None \<longrightarrow> wf_save_conversation rt now w files = Inr files)"
proof -
  have stored: "wf_state w = Some st \<and> wf_save_conversation rt now w files = Inr files' \<longrightarrow>
        get_messages (storage_dir rt) files' (conversation_id w) =
          Inr (JArr (map (\<lambda>m. json_of (persisted_form m))
                       (filter persistable (messages st))))"
  proof
    assume a: "wf_state w = Some st \<and> wf_save_conversation rt now w files = Inr files'"
    let ?meta = "Some [(''user_intent'', PStr (user_intent st)),
                       (''turn_count'', PInt (turn_count st))]"
    let ?p = "get_conversation_path (storage_dir rt) (conversation_id w)"
    have s: "save_conversation (storage_dir rt) now files (conversation_id w)
               (persisted_messages (messages st)) ?meta = Inr files'"
      using conjunct1 [OF a] conjunct2 [OF a] by (simp add: wf_save_conversation_def)
    obtain c where f: "files' =
           files \<lparr> contents := (contents files)(?p \<mapsto> Parsed (JObj
             [(''conversation_id'', JStr (conversation_id w)), (''updated_at'', JStr now),
              (''messages'', JArr (map json_of (persisted_messages (messages st)))),
              (''metadata'', JObj (map (map_prod id json_of)
                                     (case ?meta of None \<Rightarrow> [] | Some m \<Rightarrow> m))),
              (''created_at'', c)])) \<rparr>"
      and acc: "\<not> refused files ?p"
      using save_stores [OF s] by blast
    have at: "contents files' ?p =
           Some (Parsed (JObj
             [(''conversation_id'', JStr (conversation_id w)), (''updated_at'', JStr now),
              (''messages'', JArr (map json_of (persisted_messages (messages st)))),
              (''metadata'', JObj (map (map_prod id json_of)
                                     (case ?meta of None \<Rightarrow> [] | Some m \<Rightarrow> m))),
              (''created_at'', c)]))"
      by (simp add: f)
    have acc': "\<not> refused files' ?p"
      using acc by (simp add: f)
    have "get_messages (storage_dir rt) files' (conversation_id w) =
            Inr (JArr (map json_of (persisted_messages (messages st))))"
      using at acc' by (rule get_messages_stored) simp_all
    then show "get_messages (storage_dir rt) files' (conversation_id w) =
          Inr (JArr (map (\<lambda>m. json_of (persisted_form m))
                       (filter persistable (messages st))))"
      by (simp add: persisted_messages_filter comp_def)
  qed
  have none: "wf_state w = None \<longrightarrow> wf_save_conversation rt now w files = Inr files"
    by (simp add: wf_save_conversation_def)
  show ?thesis
    using persisted_messages_filter [of ms] stored none by simp
qed

theorem persisted_trace_has_no_tool_traffic_witness:
  "wf_state tool_turn_workflow = Some tool_turn_state
   \<and> (\<exists>files'.
         wf_save_conversation (runtime_of failing_env) ''t1'' tool_turn_workflow empty_dir
           = Inr files'
         \<and> get_messages ''data/conversations'' files' ''s1'' =
             Inr (JArr [JObj [(''role'', JStr ''user''),
                              (''content'', JStr ''Can you explain recursion?'')],
                        JObj [(''role'', JStr ''assistant''),
                              (''content'',
                               JStr ''Recursion is when a function calls itself.'')]]))"
proof -
  have w: "wf_state tool_turn_workflow = Some tool_turn_state"
    by (simp add: tool_turn_workflow_def)
  have "\<exists>files'. wf_save_conversation (runtime_of failing_env) ''t1'' tool_turn_workflow
          empty_dir = Inr files'"
    by (simp add: wf_save_conversation_def tool_turn_workflow_def runtime_of_def
          save_conversation_def empty_dir_def)
  then obtain files' where
    s: "wf_save_conversation (runtime_of failing_env) ''t1'' tool_turn_workflow empty_dir
          = Inr files'"
    by blast
  have sel: "storage_dir (runtime_of failing_env) = ''data/conversations''
             \<and> conversation_id tool_turn_workflow = ''s1''"
    by (simp add: runtime_of_def tool_turn_workflow_def)
  have trace: "map (\<lambda>m. json_of (persisted_form m))
                 (filter persistable (messages tool_turn_state)) =
       [JObj [(''role'', JStr ''user''), (''content'', JStr ''Can you explain recursion?'')],
        JObj [(''role'', JStr ''assistant''),
              (''content'', JStr ''Recursion is when a function calls itself.'')]]"
    by (simp add: tool_turn_state_def get_initial_state_def)
  show ?thesis
    using w s sel trace
      persisted_trace_has_no_tool_traffic
        [of _ _ _ _ tool_turn_workflow tool_turn_state "runtime_of failing_env" "''t1''"
            empty_dir files']
    by auto
qed

section \<open>Properties of the capability handlers\<close>

lemma well_formed_failed: "well_formed (handler_failed key e)"
  by (simp add: well_formed_def handler_failed_def)

lemma well_formed_base: "well_formed (base_process_query prompt_of key ainvoke query st)"
  unfolding base_process_query_def
  by (simp add: handler_failed_def well_formed_def split: sum.splits)

lemma well_formed_explainer: "well_formed (explainer_process_query render ainvoke query st)"
  unfolding explainer_process_query_def
  by (simp add: handler_failed_def well_formed_def split: sum.splits)

lemma well_formed_learner: "well_formed (learner_process_query render agent query st)"
  unfolding learner_process_query_def
  by (simp add: handler_failed_def well_formed_def split: sum.splits)

lemma well_formed_orchestrator: "well_formed (orchestrator_process_query agent query st)"
  unfolding orchestrator_process_query_def
  by (simp add: handler_failed_def well_formed_def split: sum.splits)

text \<open>
  C7. Each of the four handlers returns a result (it is a total function: no exception
  leaves it), and the result is never partially populated: with \<open>success\<close> the payload
  is present and the error list empty, without it the payload is absent and the error
  list not empty. When the generation call or the tool loop raises an exception with
  message \<open>e\<close>, the result is the failure result: \<open>success\<close> false, payload absent,
  error list \<open>[e]\<close>. A raise while the prompt is built ends the same way.
\<close>

theorem handlers_fail_closed:
  "well_formed (base_process_query prompt_of key model query st)
   \<and> well_formed (explainer_process_query render chat_model query st)
   \<and> well_formed (learner_process_query render agent query st)
   \<and> well_formed (orchestrator_process_query agent query st)
   \<and> (prompt_of st = Inr prompt
        \<and> model [[(''role'', ''system''), (''content'', prompt)],
                  [(''role'', ''user''), (''content'', query)]] = Inl e
      \<longrightarrow> base_process_query prompt_of key model query st = handler_failed key e)
   \<and> (prompt_of st = Inl e
      \<longrightarrow> base_process_query prompt_of key model query st = handler_failed key e)
   \<and> (explainer_get_prompt render st = Inr prompt
        \<and> chat_model [SystemMessage prompt, HumanMessage query] = Inl e
      \<longrightarrow> explainer_process_query render chat_model query st =
            handler_failed ''explainer_agent_result'' e)
   \<and> (learner_get_prompt render st = Inr prompt \<and> agent prompt [HumanMessage query] = Inl e
      \<longrightarrow> learner_process_query render agent query st =
            handler_failed ''learner_agent_result'' e)
   \<and> (agent (orchestrator_get_prompt st) (case st of None \<Rightarrow> [] | Some s \<Rightarrow> messages s) = Inl e
      \<longrightarrow> orchestrator_process_query agent query st = handler_failed ''orchestrator_result'' e)
   \<and> \<not> hr_success (handler_failed key e)
   \<and> hr_payload (handler_failed key e) = None
   \<and> hr_error (handler_failed key e) = [e]"
proof -
  have base: "prompt_of st = Inr prompt
        \<and> model [[(''role'', ''system''), (''content'', prompt)],
                  [(''role'', ''user''), (''content'', query)]] = Inl e
      \<longrightarrow> base_process_query prompt_of key model query st = handler_failed key e"
    by (simp add: base_process_query_def)
  have base_prompt: "prompt_of st = Inl e
      \<longrightarrow> base_process_query prompt_of key model query st = handler_failed key e"
    by (simp add: base_process_query_def)
  have explainer: "explainer_get_prompt render st = Inr prompt
        \<and> chat_model [SystemMessage prompt, HumanMessage query] = Inl e
      \<longrightarrow> explainer_process_query render chat_model query st =
            handler_failed ''explainer_agent_result'' e"
    by (simp add: explainer_process_query_def)
  have learner: "learner_get_prompt render st = Inr prompt
        \<and> agent prompt [HumanMessage query] = Inl e
      \<longrightarrow> learner_process_query render agent query st =
            handler_failed ''learner_agent_result'' e"
    by (simp add: learner_process_query_def)
  have orchestrator:
    "agent (orchestrator_get_prompt st) (case st of None \<Rightarrow> [] | Some s \<Rightarrow> messages s) = Inl e
      \<longrightarrow> orchestrator_process_query agent query st = handler_failed ''orchestrator_result'' e"
    by (simp add: orchestrator_process_query_def)
  have failed: "\<not> hr_success (handler_failed key e)
   \<and> hr_payload (handler_failed key e) = None
   \<and> hr_error (handler_failed key e) = [e]"
    by (simp add: handler_failed_def)
  show ?thesis
    using well_formed_base [of prompt_of key model query st]
      well_formed_explainer [of render chat_model query st]
      well_formed_learner [of render agent query st]
      well_formed_orchestrator [of agent query st]
      base base_prompt explainer learner orchestrator failed
    by blast
qed

text \<open>
  Fault injection: a generation capability that raises \<open>timeout\<close>, for each handler.
\<close>

theorem handlers_fail_closed_witness:
  "base_process_query (\<lambda>st. Inr ''be brief'') ''result'' (\<lambda>ms. Inl ''timeout'') ''hello'' None
     = handler_failed ''result'' ''timeout''
   \<and> explainer_process_query (\<lambda>bs. []) (\<lambda>ms. Inl ''timeout'') ''hello'' None
     = handler_failed ''explainer_agent_result'' ''timeout''
   \<and> learner_process_query (\<lambda>bs. []) (\<lambda>p ms. Inl ''timeout'') ''hello'' None
     = handler_failed ''learner_agent_result'' ''timeout''
   \<and> orchestrator_process_query (\<lambda>p ms. Inl ''timeout'') ''hello'' None
     = handler_failed ''orchestrator_result'' ''timeout''
   \<and> hr_error (handler_failed ''result'' ''timeout'') = [''timeout'']"
proof -
  have ep: "explainer_get_prompt (\<lambda>bs. []) None = Inr (EXPLAINER_AGENT_PROMPT [])"
    by (simp add: explainer_get_prompt_def)
  have lp: "learner_get_prompt (\<lambda>bs. []) None = Inr (LEARNER_AGENT_PROMPT [])"
    by (simp add: learner_get_prompt_def)
  show ?thesis
    using ep lp
      handlers_fail_closed
        [of "\<lambda>st. Inr ''be brief''" "''result''" "\<lambda>ms. Inl ''timeout''" "''hello''" None
            "\<lambda>bs. []" "\<lambda>ms. Inl ''timeout''" "\<lambda>p ms. Inl ''timeout''" "''be brief''"
            "''timeout''"]
      handlers_fail_closed
        [of "\<lambda>st. Inr ''be brief''" "''result''" "\<lambda>ms. Inl ''timeout''" "''hello''" None
            "\<lambda>bs. []" "\<lambda>ms. Inl ''timeout''" "\<lambda>p ms. Inl ''timeout''"
            "EXPLAINER_AGENT_PROMPT []" "''timeout''"]
      handlers_fail_closed
        [of "\<lambda>st. Inr ''be brief''" "''result''" "\<lambda>ms. Inl ''timeout''" "''hello''" None
            "\<lambda>bs. []" "\<lambda>ms. Inl ''timeout''" "\<lambda>p ms. Inl ''timeout''"
            "LEARNER_AGENT_PROMPT []" "''timeout''"]
    by simp
qed

end
